theory Spec2Isabelle
  imports Complex_Main "HOL-Library.Log_Nat"
begin

section \<open>Python dictionaries and membership\<close>

text \<open>
  A Python dict literal with pairwise different keys is an association list read through
  \<open>map_of\<close>. \<open>d.get(k, default)\<close> returns the stored value, or \<open>default\<close> when \<open>k\<close> is
  not a key; it raises nothing for a string key. \<open>x in xs\<close> on a list is membership.
\<close>

definition dict_get :: "('k \<times> 'v) list \<Rightarrow> 'k \<Rightarrow> 'v \<Rightarrow> 'v" where
  "dict_get d k dflt = (case map_of d k of None \<Rightarrow> dflt | Some v \<Rightarrow> v)"

definition py_in :: "'a \<Rightarrow> 'a list \<Rightarrow> bool" where
  "py_in x xs = (x \<in> set xs)"

section \<open>The workflow state machine (states/ResumeAnalysisState.py)\<close>

subsection \<open>validate_state_transition\<close>

definition valid_transitions :: "(string \<times> string list) list" where
  "valid_transitions =
    [(''initialized'', [''parsing_resume'']),
     (''parsing_resume'', [''resume_parsed'', ''error'']),
     (''resume_parsed'', [''searching_jobs'']),
     (''searching_jobs'', [''jobs_found'', ''error'']),
     (''jobs_found'', [''scoring_ats'']),
     (''scoring_ats'', [''ats_scored'', ''error'']),
     (''ats_scored'', [''generating_advice'']),
     (''generating_advice'', [''completed'', ''error'']),
     (''error'', [''retry'', ''completed'']),
     (''completed'', [])]"

definition validate_state_transition :: "string \<Rightarrow> string \<Rightarrow> bool" where
  "validate_state_transition from_step to_step =
     py_in to_step (dict_get valid_transitions from_step [])"

subsection \<open>get_state_progress_percentage\<close>

text \<open>
  The percentages are the float literals of the source. Each of them is a small integer,
  which a double holds exactly, and the function only looks them up, so they are read as
  reals.
\<close>

definition step_progress :: "(string \<times> real) list" where
  "step_progress =
    [(''initialized'', 0.0),
     (''parsing_resume'', 10.0),
     (''resume_parsed'', 25.0),
     (''searching_jobs'', 40.0),
     (''jobs_found'', 60.0),
     (''scoring_ats'', 75.0),
     (''ats_scored'', 85.0),
     (''generating_advice'', 95.0),
     (''completed'', 100.0),
     (''error'', 0.0)]"

definition get_state_progress_percentage :: "string \<Rightarrow> real" where
  "get_state_progress_percentage current_step = dict_get step_progress current_step 0.0"

subsection \<open>The tables of the specification\<close>

text \<open>
  The transition table as the specification lists it, one pair for each permitted edge,
  and the step names it uses as keys.
\<close>

definition spec_transition_pairs :: "(string \<times> string) list" where
  "spec_transition_pairs =
    [(''initialized'', ''parsing_resume''),
     (''parsing_resume'', ''resume_parsed''), (''parsing_resume'', ''error''),
     (''resume_parsed'', ''searching_jobs''),
     (''searching_jobs'', ''jobs_found''), (''searching_jobs'', ''error''),
     (''jobs_found'', ''scoring_ats''),
     (''scoring_ats'', ''ats_scored''), (''scoring_ats'', ''error''),
     (''ats_scored'', ''generating_advice''),
     (''generating_advice'', ''completed''), (''generating_advice'', ''error''),
     (''error'', ''retry''), (''error'', ''completed'')]"

definition spec_table_keys :: "string list" where
  "spec_table_keys =
    [''initialized'', ''parsing_resume'', ''resume_parsed'', ''searching_jobs'',
     ''jobs_found'', ''scoring_ats'', ''ats_scored'', ''generating_advice'',
     ''error'', ''completed'']"

text \<open>
  The success path of the pipeline, and what a path through the state machine is: a list of
  step names in which every step to the next one is a transition the validator accepts.
\<close>

definition canonical_success_path :: "string list" where
  "canonical_success_path =
    [''initialized'', ''parsing_resume'', ''resume_parsed'', ''searching_jobs'',
     ''jobs_found'', ''scoring_ats'', ''ats_scored'', ''generating_advice'', ''completed'']"

fun valid_path :: "string list \<Rightarrow> bool" where
  "valid_path [] = True"
| "valid_path [s] = True"
| "valid_path (s # t # rest) = (validate_state_transition s t \<and> valid_path (t # rest))"

section \<open>The workflow state and its factory (states/ResumeAnalysisState.py)\<close>

subsection \<open>Data models\<close>

text \<open>
  The four pydantic models are records with the fields of the source. A field of type
  \<open>Optional[t]\<close> is a \<open>t option\<close> with \<open>None\<close> for Python's \<open>None\<close>, a \<open>Dict[str, t]\<close>
  is a map, a float is a real. \<open>py_any\<close> stands for the values of a field typed \<open>Any\<close>,
  and \<open>BaseMessage\<close> for the message class of the langchain library, of which the state
  keeps the message kind and its content.
\<close>

datatype py_any = PyNone | PyBool bool | PyInt int | PyFloat real | PyStr string
  | PyList "py_any list"

datatype BaseMessage = BaseMessage (message_kind: string) (message_content: string)

record ResumeData =
  raw_text :: string
  parsed_sections :: "string \<rightharpoonup> py_any"
  skills :: "string list"
  experience_years :: int
  education_level :: string
  job_titles :: "string list"
  industries :: "string list"
  certifications :: "string list"

record JobMatch =
  title :: string
  company :: string
  location :: string
  description :: string
  required_skills :: "string list"
  preferred_skills :: "string list"
  salary_range :: "string option"
  experience_required :: "string option"
  match_score :: real
  source :: string
  job_url :: "string option"
  posted_date :: "string option"

record ATSScore =
  job_title :: string
  overall_score :: int
  keyword_score :: int
  format_score :: int
  structure_score :: int
  recommendations :: "string list"
  missing_keywords :: "string list"
  keyword_density :: "string \<rightharpoonup> real"

record ResumeEnhancement =
  missing_skills_to_add :: "string list"
  experience_bullets_to_add :: "string list"
  keywords_to_incorporate :: "string list"
  technical_tools_to_mention :: "string list"
  certifications_to_pursue :: "string list"
  action_verbs_suggestions :: "string list"
  quantifiable_achievements :: "string list"
  section_improvements :: "string \<rightharpoonup> string list"

subsection \<open>ResumeAnalysisState\<close>

text \<open>
  The TypedDict of the workflow: a dictionary with exactly these thirty keys, so a record.
\<close>

record ResumeAnalysisState =
  messages :: "BaseMessage list"
  uploaded_file_path :: "string option"
  target_job_title :: "string option"
  target_industry :: "string option"
  target_location :: "string option"
  experience_level :: "string option"
  resume_data :: "ResumeData option"
  parsing_errors :: "string list"
  file_format :: "string option"
  parsing_confidence :: "real option"
  matching_jobs :: "JobMatch list"
  job_search_errors :: "string list"
  search_query_used :: "string option"
  total_jobs_found :: int
  ats_scores :: "ATSScore list"
  average_ats_score :: "real option"
  best_ats_match :: "string option"
  improvement_recommendations :: "string list"
  resume_enhancements :: "ResumeEnhancement option"
  personalized_tips :: "string list"
  priority_improvements :: "string list"
  current_step :: string
  errors :: "string list"
  warnings :: "string list"
  is_complete :: bool
  processing_time_seconds :: "real option"
  workflow_version :: "string option"
  timestamp_started :: "string option"
  timestamp_completed :: "string option"
  user_id :: "string option"

subsection \<open>The clock: datetime.now().isoformat()\<close>

text \<open>
  \<open>datetime.now()\<close> reads the clock and returns a naive datetime (no time zone); the
  model takes that value as an argument. \<open>isoformat()\<close> prints it as
  \<open>YYYY-MM-DDTHH:MM:SS\<close>, followed by \<open>.ffffff\<close> when the microseconds are not zero,
  every number in decimal and padded with zeros to its width.
\<close>

record datetime =
  dt_year :: nat
  dt_month :: nat
  dt_day :: nat
  dt_hour :: nat
  dt_minute :: nat
  dt_second :: nat
  dt_microsecond :: nat

definition digit_char :: "nat \<Rightarrow> char" where
  "digit_char d = ''0123456789'' ! (d mod 10)"

function show_nat :: "nat \<Rightarrow> string" where
  "show_nat n = (if n < 10 then [digit_char n] else show_nat (n div 10) @ [digit_char n])"
  by pat_completeness auto
termination
  by (relation "measure (\<lambda>n. n)") auto

declare show_nat.simps [simp del]

definition zero_pad :: "nat \<Rightarrow> nat \<Rightarrow> string" where
  "zero_pad width n = replicate (width - length (show_nat n)) (CHR ''0'') @ show_nat n"

definition isoformat :: "datetime \<Rightarrow> string" where
  "isoformat dt =
     zero_pad 4 (dt_year dt) @ ''-'' @ zero_pad 2 (dt_month dt) @ ''-'' @ zero_pad 2 (dt_day dt)
     @ ''T'' @ zero_pad 2 (dt_hour dt) @ '':'' @ zero_pad 2 (dt_minute dt)
     @ '':'' @ zero_pad 2 (dt_second dt)
     @ (if dt_microsecond dt \<noteq> 0 then ''.'' @ zero_pad 6 (dt_microsecond dt) else [])"

text \<open>
  The datetime class keeps its fields in these ranges. The extended ISO-8601 format of a
  local date and time is \<open>YYYY-MM-DDThh:mm:ss\<close> with an optional decimal fraction of the
  second; in a shape, \<open>d\<close> stands for any decimal digit and every other character for
  itself.
\<close>

definition datetime_in_range :: "datetime \<Rightarrow> bool" where
  "datetime_in_range dt =
     (1 \<le> dt_year dt \<and> dt_year dt \<le> 9999 \<and> 1 \<le> dt_month dt \<and> dt_month dt \<le> 12
      \<and> 1 \<le> dt_day dt \<and> dt_day dt \<le> 31 \<and> dt_hour dt < 24 \<and> dt_minute dt < 60
      \<and> dt_second dt < 60 \<and> dt_microsecond dt < 1000000)"

definition is_digit :: "char \<Rightarrow> bool" where
  "is_digit c = (c \<in> set ''0123456789'')"

fun matches_shape :: "string \<Rightarrow> string \<Rightarrow> bool" where
  "matches_shape [] [] = True"
| "matches_shape (p # ps) (c # cs) =
     ((if p = CHR ''d'' then is_digit c else c = p) \<and> matches_shape ps cs)"
| "matches_shape _ _ = False"

definition iso8601_shape :: "string \<Rightarrow> bool" where
  "iso8601_shape s =
     (matches_shape ''dddd-dd-ddTdd:dd:dd'' s \<or> matches_shape ''dddd-dd-ddTdd:dd:dd.dddddd'' s)"

text \<open>
  The datetime class accepts exactly the readings that are a date of the calendar and a time
  of the day: on top of the ranges above, the day is at most the number of days of its
  month. The reading that a text stands for is read back from the positions of its fields:
  \<open>fromisoformat\<close> returns it when the text has the shape and the fields are such a
  reading, and \<open>None\<close> for every other text.
\<close>

definition is_leap :: "nat \<Rightarrow> bool" where
  "is_leap y = (y mod 4 = 0 \<and> (y mod 100 \<noteq> 0 \<or> y mod 400 = 0))"

definition days_in_month :: "nat \<Rightarrow> nat \<Rightarrow> nat" where
  "days_in_month y m =
     (if m = 2 then (if is_leap y then 29 else 28)
      else if m = 4 \<or> m = 6 \<or> m = 9 \<or> m = 11 then 30 else 31)"

definition datetime_valid :: "datetime \<Rightarrow> bool" where
  "datetime_valid dt =
     (1 \<le> dt_year dt \<and> dt_year dt \<le> 9999 \<and> 1 \<le> dt_month dt \<and> dt_month dt \<le> 12
      \<and> 1 \<le> dt_day dt \<and> dt_day dt \<le> days_in_month (dt_year dt) (dt_month dt)
      \<and> dt_hour dt < 24 \<and> dt_minute dt < 60
      \<and> dt_second dt < 60 \<and> dt_microsecond dt < 1000000)"

definition digit_value :: "char \<Rightarrow> nat" where
  "digit_value c = of_char c - 48"

definition read_nat :: "string \<Rightarrow> nat" where
  "read_nat s = foldl (\<lambda>acc c. 10 * acc + digit_value c) 0 s"

definition fromisoformat :: "string \<Rightarrow> datetime option" where
  "fromisoformat s =
     (if iso8601_shape s then
        let dt = \<lparr> dt_year = read_nat (take 4 s),
                   dt_month = read_nat (take 2 (drop 5 s)),
                   dt_day = read_nat (take 2 (drop 8 s)),
                   dt_hour = read_nat (take 2 (drop 11 s)),
                   dt_minute = read_nat (take 2 (drop 14 s)),
                   dt_second = read_nat (take 2 (drop 17 s)),
                   dt_microsecond = read_nat (drop 20 s) \<rparr>
        in if datetime_valid dt then Some dt else None
      else None)"

text \<open>A reading of the clock to run the factory on.\<close>

definition demo_now :: datetime where
  "demo_now = \<lparr> dt_year = 2026, dt_month = 11, dt_day = 3, dt_hour = 14, dt_minute = 5,
                dt_second = 7, dt_microsecond = 250000 \<rparr>"

subsection \<open>create_initial_state\<close>

text \<open>
  The first argument is the value \<open>datetime.now()\<close> returns during the call; the other
  five are the arguments of the source, the last four with the default \<open>None\<close>.
\<close>

definition create_initial_state ::
  "datetime \<Rightarrow> string \<Rightarrow> string option \<Rightarrow> string option \<Rightarrow> string option \<Rightarrow> string option
     \<Rightarrow> ResumeAnalysisState" where
  "create_initial_state now file_path job_title_arg industry_arg location_arg level_arg =
     \<lparr> messages = [],
       uploaded_file_path = Some file_path,
       target_job_title = job_title_arg,
       target_industry = industry_arg,
       target_location = location_arg,
       experience_level = level_arg,
       resume_data = None,
       parsing_errors = [],
       file_format = None,
       parsing_confidence = None,
       matching_jobs = [],
       job_search_errors = [],
       search_query_used = None,
       total_jobs_found = 0,
       ats_scores = [],
       average_ats_score = None,
       best_ats_match = None,
       improvement_recommendations = [],
       resume_enhancements = None,
       personalized_tips = [],
       priority_improvements = [],
       current_step = ''initialized'',
       errors = [],
       warnings = [],
       is_complete = False,
       processing_time_seconds = None,
       workflow_version = Some ''1.0.0'',
       timestamp_started = Some (isoformat now),
       timestamp_completed = None,
       user_id = None \<rparr>"

section \<open>File validation (src/utils/utilities.py)\<close>

subsection \<open>The file system and the errors of the library calls\<close>

text \<open>
  The file system is what \<open>os.path.exists\<close> and \<open>os.path.getsize\<close> read of it: the
  paths that exist, each with its size in bytes (the \<open>st_size\<close> of \<open>stat\<close>, a signed
  64-bit number on the platforms Python runs on, and never negative). It does not change
  during a call. \<open>getsize\<close> raises for a path that does not exist.
\<close>

datatype py_error = ZeroDivisionError | OverflowError | FileNotFoundError

type_synonym filesystem = "string \<rightharpoonup> nat"

definition os_path_exists :: "filesystem \<Rightarrow> string \<Rightarrow> bool" where
  "os_path_exists fs path = (fs path \<noteq> None)"

definition os_path_getsize :: "filesystem \<Rightarrow> string \<Rightarrow> py_error + nat" where
  "os_path_getsize fs path =
     (case fs path of None \<Rightarrow> Inl FileNotFoundError | Some n \<Rightarrow> Inr n)"


subsection \<open>True division of integers\<close>

text \<open>
  \<open>a / b\<close> on two Python ints is the double nearest to the quotient, ties going to the
  even mantissa; it raises \<open>ZeroDivisionError\<close> for \<open>b = 0\<close> and \<open>OverflowError\<close> when
  the result is too large for a double. A double is modelled by the rational it stands for.
  Here both operands are non-negative. With \<open>2 ^ e \<le> q < 2 ^ (e + 1)\<close>, the doubles
  around \<open>q\<close> are the multiples of \<open>2 ^ (e - 52)\<close>, and of \<open>2 ^ (- 1074)\<close> below the
  normal range.
\<close>

definition round_half_even :: "rat \<Rightarrow> int" where
  "round_half_even x =
     (let f = \<lfloor>x\<rfloor>; r = x - of_int f
      in if r < 1 / 2 then f else if 1 / 2 < r then f + 1 else if even f then f else f + 1)"

definition py_int_truediv :: "nat \<Rightarrow> nat \<Rightarrow> py_error + rat" where
  "py_int_truediv a b =
     (if b = 0 then Inl ZeroDivisionError
      else if a = 0 then Inr 0
      else
        let q = of_nat a / of_nat b;
            e0 = int (floorlog 2 a) - int (floorlog 2 b);
            e = (if 2 powi e0 \<le> q then e0 else e0 - 1);
            ulp = 2 powi (max e (- 1022) - 52);
            r = of_int (round_half_even (q / ulp)) * ulp
        in if 2 ^ 1024 \<le> r then Inl OverflowError else Inr r)"

subsection \<open>Formatting\<close>

text \<open>
  \<open>f"{x:.1f}"\<close> prints a double with one digit after the point, rounded from its exact
  value with ties to even; \<open>f"{i}"\<close> prints an int in decimal; \<open>f"{xs}"\<close> prints a list
  of strings as \<open>['a', 'b']\<close> (for strings that need no escaping, as the three extensions
  of the source). The doubles printed here are never negative.
\<close>

definition format_1f :: "rat \<Rightarrow> string" where
  "format_1f x =
     (let n = nat (round_half_even (x * 10))
      in show_nat (n div 10) @ ''.'' @ show_nat (n mod 10))"

definition show_int :: "int \<Rightarrow> string" where
  "show_int i = (if i < 0 then ''-'' @ show_nat (nat (- i)) else show_nat (nat i))"

definition repr_str :: "string \<Rightarrow> string" where
  "repr_str s = [CHR 0x27] @ s @ [CHR 0x27]"

fun join :: "string \<Rightarrow> string list \<Rightarrow> string" where
  "join sep [] = []"
| "join sep [s] = s"
| "join sep (s # t # rest) = s @ sep @ join sep (t # rest)"

definition repr_list :: "string list \<Rightarrow> string" where
  "repr_list xs = ''['' @ join '', '' (map repr_str xs) @ '']''"

subsection \<open>str.lower and os.path.splitext\<close>

text \<open>
  A character is a code point below 256, so a path is a string over Latin-1. On these code
  points \<open>str.lower\<close> moves the capital letters 32 places up: A to Z (65 to 90) and the
  accented capitals 192 to 222, but not the multiplication sign 215; it leaves every other
  code point below 256. \<open>splitext\<close> is the one of \<open>posixpath\<close>: the extension starts at
  the last dot after the last slash, unless only dots stand between that slash and it;
  \<open>rfind\<close> returns -1 when the character does not occur.
\<close>

definition lower_char :: "char \<Rightarrow> char" where
  "lower_char c =
     (let n = (of_char c :: nat)
      in if (65 \<le> n \<and> n \<le> 90) \<or> (192 \<le> n \<and> n \<le> 222 \<and> n \<noteq> 215)
         then char_of (n + 32) else c)"

definition lower :: "string \<Rightarrow> string" where
  "lower s = map lower_char s"

definition rfind :: "string \<Rightarrow> char \<Rightarrow> int" where
  "rfind s c =
     (case filter (\<lambda>i. s ! i = c) (rev [0..<length s]) of [] \<Rightarrow> - 1 | i # _ \<Rightarrow> int i)"

function splitext_scan :: "string \<Rightarrow> int \<Rightarrow> int \<Rightarrow> string \<times> string" where
  "splitext_scan p filenameIndex dotIndex =
     (if filenameIndex < dotIndex then
        (if take 1 (drop (nat filenameIndex) p) \<noteq> ''.''
         then (take (nat dotIndex) p, drop (nat dotIndex) p)
         else splitext_scan p (filenameIndex + 1) dotIndex)
      else (p, []))"
  by pat_completeness auto
termination
  by (relation "measure (\<lambda>(p, filenameIndex, dotIndex). nat (dotIndex - filenameIndex))") auto

declare splitext_scan.simps [simp del]

definition splitext :: "string \<Rightarrow> string \<times> string" where
  "splitext p =
     (let sepIndex = rfind p (CHR ''/'');
          dotIndex = rfind p (CHR ''.'')
      in if sepIndex < dotIndex then splitext_scan p (sepIndex + 1) dotIndex else (p, []))"

subsection \<open>validate_file\<close>

text \<open>
  The result is the pair the source returns, or the exception a library call raised.
  \<open>file_size_mb > max_size_mb\<close> compares a double with an int by their exact values.
\<close>

definition validate_file ::
  "filesystem \<Rightarrow> string \<Rightarrow> int \<Rightarrow> py_error + (bool \<times> string option)" where
  "validate_file fs file_path max_size_mb =
     (if \<not> os_path_exists fs file_path then Inr (False, Some ''File does not exist'')
      else case os_path_getsize fs file_path of Inl e \<Rightarrow> Inl e | Inr size_bytes \<Rightarrow>
        (case py_int_truediv size_bytes (1024 * 1024) of Inl e \<Rightarrow> Inl e | Inr file_size_mb \<Rightarrow>
          if of_int max_size_mb < file_size_mb then
            Inr (False, Some (''File too large: '' @ format_1f file_size_mb @ ''MB (max: ''
                                @ show_int max_size_mb @ ''MB)''))
          else
            let allowed_extensions = [''.pdf'', ''.docx'', ''.txt''];
                file_ext = snd (splitext (lower file_path))
            in if \<not> py_in file_ext allowed_extensions then
                 Inr (False, Some (''Unsupported file type: '' @ file_ext @ ''. Allowed: ''
                                     @ repr_list allowed_extensions))
               else Inr (True, None)))"



text \<open>A small file system to run the validator on.\<close>

definition demo_fs :: filesystem where
  "demo_fs = [''/home/u/CV.PDF'' \<mapsto> 2048, ''notes.md'' \<mapsto> 10, ''video.txt'' \<mapsto> 6291456]"


section \<open>Properties of the state machine\<close>

lemmas state_machine_defs =
  validate_state_transition_def valid_transitions_def py_in_def dict_get_def
  get_state_progress_percentage_def step_progress_def

lemma transition_keys: "map fst valid_transitions = spec_table_keys"
  by (simp add: valid_transitions_def spec_table_keys_def)

lemma progress_keys: "map fst step_progress =
    [''initialized'', ''parsing_resume'', ''resume_parsed'', ''searching_jobs'',
     ''jobs_found'', ''scoring_ats'', ''ats_scored'', ''generating_advice'',
     ''completed'', ''error'']"
  by (simp add: step_progress_def)

text \<open>
  C1. For every pair of step names, \<open>validate_state_transition\<close> returns true exactly when
  the pair is one of the fourteen edges of the specification's transition table; and no
  transition leaves \<open>completed\<close>, not even the one to \<open>completed\<close> itself.
\<close>

theorem validate_state_transition_iff_table:
  "validate_state_transition from_step to_step = ((from_step, to_step) \<in> set spec_transition_pairs)
   \<and> validate_state_transition ''completed'' x = False
   \<and> validate_state_transition ''completed'' ''completed'' = False"
  by (simp add: state_machine_defs spec_transition_pairs_def)

text \<open>
  C2. \<open>get_state_progress_percentage\<close> maps each of the ten recognised step names to its
  fixed percentage and every other string to 0. The function is a lookup with a default:
  it returns a value for every string and has no state to change.
\<close>

theorem get_state_progress_percentage_table:
  "get_state_progress_percentage ''initialized'' = 0.0 \<and>
   get_state_progress_percentage ''parsing_resume'' = 10.0 \<and>
   get_state_progress_percentage ''resume_parsed'' = 25.0 \<and>
   get_state_progress_percentage ''searching_jobs'' = 40.0 \<and>
   get_state_progress_percentage ''jobs_found'' = 60.0 \<and>
   get_state_progress_percentage ''scoring_ats'' = 75.0 \<and>
   get_state_progress_percentage ''ats_scored'' = 85.0 \<and>
   get_state_progress_percentage ''generating_advice'' = 95.0 \<and>
   get_state_progress_percentage ''completed'' = 100.0 \<and>
   get_state_progress_percentage ''error'' = 0.0 \<and>
   (s \<notin> set spec_table_keys \<longrightarrow> get_state_progress_percentage s = 0.0)"
  by (simp add: state_machine_defs spec_table_keys_def)

theorem get_state_progress_percentage_table_witness:
  "''unknown_step'' \<notin> set spec_table_keys \<and>
   get_state_progress_percentage ''unknown_step'' = 0.0 \<and>
   get_state_progress_percentage ''jobs_found'' = 60.0"
  using get_state_progress_percentage_table [of "''unknown_step''"]
  by (simp add: spec_table_keys_def)

text \<open>
  C4, as the specification states it: progress never decreases along a transition the
  validator accepts. It fails on every edge into \<open>error\<close>: \<open>parsing_resume\<close> stands at
  10 percent, \<open>error\<close> at 0, and the transition between them is valid.
\<close>

theorem progress_monotone_counterexample:
  "validate_state_transition ''parsing_resume'' ''error'' \<and>
   \<not> (get_state_progress_percentage ''parsing_resume''
        \<le> get_state_progress_percentage ''error'')"
  by (simp add: state_machine_defs)

lemma progress_step_mono:
  "validate_state_transition from_step to_step \<Longrightarrow> to_step \<noteq> ''error'' \<Longrightarrow>
   get_state_progress_percentage from_step \<le> get_state_progress_percentage to_step"
  by (simp add: state_machine_defs split: if_splits)

lemma progress_path_mono:
  "valid_path p \<Longrightarrow> ''error'' \<notin> set (tl p) \<Longrightarrow>
   sorted (map get_state_progress_percentage p)"
proof (induction p rule: valid_path.induct)
  case (3 s t rest)
  from "3.prems" have step: "validate_state_transition s t" and rest: "valid_path (t # rest)"
    and t: "t \<noteq> ''error''" and no_err: "''error'' \<notin> set (tl (t # rest))"
    by auto
  have "get_state_progress_percentage s \<le> get_state_progress_percentage t"
    using step t by (rule progress_step_mono)
  moreover have "sorted (map get_state_progress_percentage (t # rest))"
    using rest no_err by (rule "3.IH")
  ultimately show ?case by fastforce
qed simp_all

text \<open>
  C4, amended: progress never decreases along a valid transition whose target is not
  \<open>error\<close>, hence along any valid path that does not enter \<open>error\<close>; the canonical
  success path is such a path, with the percentages 0, 10, 25, 40, 60, 75, 85, 95, 100.
\<close>

theorem progress_monotone_outside_error:
  "(validate_state_transition from_step to_step \<and> to_step \<noteq> ''error'' \<longrightarrow>
      get_state_progress_percentage from_step \<le> get_state_progress_percentage to_step)
   \<and> (valid_path p \<and> ''error'' \<notin> set (tl p) \<longrightarrow>
      sorted (map get_state_progress_percentage p))
   \<and> valid_path canonical_success_path
   \<and> map get_state_progress_percentage canonical_success_path
        = [0, 10, 25, 40, 60, 75, 85, 95, 100]"
proof (intro conjI impI)
  show "valid_path canonical_success_path"
    by (simp add: canonical_success_path_def state_machine_defs)
  show "map get_state_progress_percentage canonical_success_path
        = [0, 10, 25, 40, 60, 75, 85, 95, 100]"
    by (simp add: canonical_success_path_def state_machine_defs)
qed (auto intro: progress_step_mono progress_path_mono)

theorem progress_monotone_outside_error_witness:
  "validate_state_transition ''error'' ''completed'' \<and> ''completed'' \<noteq> ''error''
   \<and> get_state_progress_percentage ''error'' \<le> get_state_progress_percentage ''completed''
   \<and> valid_path [''scoring_ats'', ''ats_scored'', ''generating_advice'']
   \<and> ''error'' \<notin> set (tl [''scoring_ats'', ''ats_scored'', ''generating_advice''])
   \<and> sorted (map get_state_progress_percentage
        [''scoring_ats'', ''ats_scored'', ''generating_advice''])"
  using progress_monotone_outside_error
    [of "''error''" "''completed''" "[''scoring_ats'', ''ats_scored'', ''generating_advice'']"]
  by (simp add: validate_state_transition_def valid_transitions_def py_in_def dict_get_def)

text \<open>
  C5. From a step name that is not one of the ten keys of the transition table, no
  transition is valid, whatever the target: the validator answers false, and an unknown
  step is reported through that answer alone.
\<close>

theorem validate_state_transition_unknown_source:
  "from_step \<notin> set spec_table_keys \<Longrightarrow> validate_state_transition from_step to_step = False"
  by (simp add: state_machine_defs spec_table_keys_def)

theorem validate_state_transition_unknown_source_witness:
  "''retry'' \<notin> set spec_table_keys
   \<and> validate_state_transition ''retry'' ''parsing_resume'' = False
   \<and> ''no_such_step'' \<notin> set spec_table_keys
   \<and> validate_state_transition ''no_such_step'' ''completed'' = False"
  using validate_state_transition_unknown_source [of "''retry''" "''parsing_resume''"]
    validate_state_transition_unknown_source [of "''no_such_step''" "''completed''"]
  by (simp add: spec_table_keys_def)

text \<open>
  C6, as the specification states it: \<open>error\<close> is one transition away from each of the
  seven states between \<open>initialized\<close> and \<open>completed\<close>. The table has no such edge from
  \<open>resume_parsed\<close> (nor from \<open>jobs_found\<close> or \<open>ats_scored\<close>).
\<close>

theorem error_edge_counterexample:
  "validate_state_transition ''resume_parsed'' ''error'' = False"
  by (simp add: state_machine_defs)

text \<open>
  C6, amended: \<open>error\<close> is one transition away from exactly the four states in which a
  stage is running (\<open>parsing_resume\<close>, \<open>searching_jobs\<close>, \<open>scoring_ats\<close>,
  \<open>generating_advice\<close>); from the three states that hold a stage's result
  (\<open>resume_parsed\<close>, \<open>jobs_found\<close>, \<open>ats_scored\<close>) it is two transitions away, through
  the next running state; and from \<open>error\<close> both \<open>retry\<close> and \<open>completed\<close> are valid.
\<close>

theorem error_edges:
  "validate_state_transition s ''error''
     = (s \<in> {''parsing_resume'', ''searching_jobs'', ''scoring_ats'', ''generating_advice''})
   \<and> valid_path [''resume_parsed'', ''searching_jobs'', ''error'']
   \<and> valid_path [''jobs_found'', ''scoring_ats'', ''error'']
   \<and> valid_path [''ats_scored'', ''generating_advice'', ''error'']
   \<and> validate_state_transition ''error'' ''retry''
   \<and> validate_state_transition ''error'' ''completed''"
  by (simp add: state_machine_defs)

text \<open>
  C9. \<open>retry\<close> is a permitted target from \<open>error\<close>, yet it is not a key of the progress
  table: its progress is 0, the value of a step name the table does not know.
\<close>

theorem retry_progress_zero:
  "get_state_progress_percentage ''retry'' = 0.0
   \<and> validate_state_transition ''error'' ''retry''
   \<and> ''retry'' \<notin> set (map fst step_progress)
   \<and> get_state_progress_percentage ''retry'' = get_state_progress_percentage ''unrecognized''"
  by (simp add: state_machine_defs)

section \<open>Properties of the factory\<close>

subsection \<open>The text of a datetime has the ISO-8601 shape\<close>

lemma is_digit_digit_char: "is_digit (digit_char d)"
  unfolding digit_char_def is_digit_def by (rule nth_mem) simp

lemma is_digit_zero: "is_digit (CHR ''0'')"
  by (simp add: is_digit_def)

lemma show_nat_digits: "list_all is_digit (show_nat n)"
proof (induction n rule: show_nat.induct)
  case (1 n)
  then show ?case
    by (subst show_nat.simps) (simp add: is_digit_digit_char)
qed

lemma length_show_nat: "n < 10 ^ w \<Longrightarrow> 0 < w \<Longrightarrow> length (show_nat n) \<le> w"
proof (induction n arbitrary: w rule: show_nat.induct)
  case (1 n)
  show ?case
  proof (cases "n < 10")
    case True
    with "1.prems" show ?thesis
      by (subst show_nat.simps) simp
  next
    case False
    obtain v where w: "w = Suc v" using "1.prems"(2) by (cases w) auto
    from False "1.prems"(1) have "0 < v"
      by (cases v) (auto simp: w)
    moreover from "1.prems"(1) have "n div 10 < 10 ^ v"
      by (simp add: w less_mult_imp_div_less)
    ultimately have "length (show_nat (n div 10)) \<le> v"
      using "1.IH" False by simp
    with False show ?thesis
      by (subst show_nat.simps) (simp add: w)
  qed
qed

lemma zero_pad_shape:
  assumes "n < 10 ^ w" and "0 < w"
  shows "matches_shape (replicate w (CHR ''d'')) (zero_pad w n)"
proof -
  have len: "length (zero_pad w n) = w"
    using length_show_nat [OF assms] by (simp add: zero_pad_def)
  have digits: "list_all is_digit (zero_pad w n)"
    using show_nat_digits [of n] by (auto simp add: zero_pad_def list_all_iff is_digit_zero)
  have "list_all is_digit s \<Longrightarrow> matches_shape (replicate (length s) (CHR ''d'')) s" for s
    by (induction s) simp_all
  from this [OF digits] show ?thesis
    by (simp only: len)
qed

lemma matches_shape_append:
  "matches_shape p1 s1 \<Longrightarrow> matches_shape p2 s2 \<Longrightarrow> matches_shape (p1 @ p2) (s1 @ s2)"
  by (induction p1 s1 rule: matches_shape.induct) simp_all

lemma shape_date_time:
  "''dddd-dd-ddTdd:dd:dd'' =
     replicate 4 (CHR ''d'') @ ''-'' @ replicate 2 (CHR ''d'') @ ''-'' @ replicate 2 (CHR ''d'')
     @ ''T'' @ replicate 2 (CHR ''d'') @ '':'' @ replicate 2 (CHR ''d'') @ '':''
     @ replicate 2 (CHR ''d'')"
  by (simp add: numeral_eq_Suc)

lemma shape_date_time_micro:
  "''dddd-dd-ddTdd:dd:dd.dddddd'' =
     ''dddd-dd-ddTdd:dd:dd'' @ ''.'' @ replicate 6 (CHR ''d'')"
  by (simp add: numeral_eq_Suc)

lemma isoformat_shape:
  assumes "datetime_in_range dt"
  shows "iso8601_shape (isoformat dt)"
proof -
  have sep: "matches_shape ''-'' ''-''" "matches_shape ''T'' ''T''" "matches_shape '':'' '':''"
    "matches_shape ''.'' ''.''"
    by simp_all
  from assms have
    "matches_shape (replicate 4 (CHR ''d'')) (zero_pad 4 (dt_year dt))"
    "matches_shape (replicate 2 (CHR ''d'')) (zero_pad 2 (dt_month dt))"
    "matches_shape (replicate 2 (CHR ''d'')) (zero_pad 2 (dt_day dt))"
    "matches_shape (replicate 2 (CHR ''d'')) (zero_pad 2 (dt_hour dt))"
    "matches_shape (replicate 2 (CHR ''d'')) (zero_pad 2 (dt_minute dt))"
    "matches_shape (replicate 2 (CHR ''d'')) (zero_pad 2 (dt_second dt))"
    "matches_shape (replicate 6 (CHR ''d'')) (zero_pad 6 (dt_microsecond dt))"
    by (simp_all add: datetime_in_range_def zero_pad_shape)
  note parts = this
  have base: "matches_shape ''dddd-dd-ddTdd:dd:dd''
     (zero_pad 4 (dt_year dt) @ ''-'' @ zero_pad 2 (dt_month dt) @ ''-'' @ zero_pad 2 (dt_day dt)
      @ ''T'' @ zero_pad 2 (dt_hour dt) @ '':'' @ zero_pad 2 (dt_minute dt)
      @ '':'' @ zero_pad 2 (dt_second dt))"
    unfolding shape_date_time by (intro matches_shape_append parts sep)
  show ?thesis
  proof (cases "dt_microsecond dt = 0")
    case True
    with base show ?thesis
      by (simp add: iso8601_shape_def isoformat_def)
  next
    case False
    have "matches_shape (''dddd-dd-ddTdd:dd:dd'' @ ''.'' @ replicate 6 (CHR ''d''))
      ((zero_pad 4 (dt_year dt) @ ''-'' @ zero_pad 2 (dt_month dt) @ ''-''
        @ zero_pad 2 (dt_day dt) @ ''T'' @ zero_pad 2 (dt_hour dt) @ '':''
        @ zero_pad 2 (dt_minute dt) @ '':'' @ zero_pad 2 (dt_second dt))
       @ ''.'' @ zero_pad 6 (dt_microsecond dt))"
      by (intro matches_shape_append base parts sep)
    then have "matches_shape ''dddd-dd-ddTdd:dd:dd.dddddd'' (isoformat dt)"
      using False
      by (simp only: shape_date_time_micro [symmetric] isoformat_def append_assoc if_True
          not_False_eq_True simp_thms)
    then show ?thesis
      by (simp only: iso8601_shape_def simp_thms)
  qed
qed

subsection \<open>The text of a datetime determines the reading\<close>

lemma days_in_month_le: "days_in_month y m \<le> 31"
  by (simp add: days_in_month_def)

lemma digit_value_digit_char: "digit_value (digit_char d) = d mod 10"
proof -
  define k where "k = d mod 10"
  have "k < 10" by (simp add: k_def)
  then have "k = 0 \<or> k = 1 \<or> k = 2 \<or> k = 3 \<or> k = 4 \<or> k = 5 \<or> k = 6 \<or> k = 7 \<or> k = 8 \<or> k = 9"
    by arith
  then have "digit_value (''0123456789'' ! k) = k"
    by (elim disjE) (simp_all add: digit_value_def)
  then show ?thesis
    by (simp add: digit_char_def k_def)
qed

lemma read_nat_Nil: "read_nat [] = 0"
  by (simp add: read_nat_def)

lemma read_nat_snoc: "read_nat (s @ [c]) = 10 * read_nat s + digit_value c"
  by (simp add: read_nat_def)

lemma read_nat_show_nat: "read_nat (show_nat n) = n"
proof (induction n rule: show_nat.induct)
  case (1 n)
  show ?case
  proof (cases "n < 10")
    case True
    then show ?thesis
      by (subst show_nat.simps) (simp add: read_nat_def digit_value_digit_char)
  next
    case False
    with "1.IH" have "read_nat (show_nat (n div 10)) = n div 10"
      by simp
    with False show ?thesis
      by (subst show_nat.simps) (simp add: read_nat_snoc digit_value_digit_char)
  qed
qed

lemma read_nat_zeros: "read_nat (replicate k (CHR ''0'') @ s) = read_nat s"
proof -
  have "foldl (\<lambda>acc c. 10 * acc + digit_value c) 0 (replicate k (CHR ''0'')) = 0"
    by (induction k) (simp_all add: digit_value_def)
  then show ?thesis
    by (simp add: read_nat_def)
qed

lemma read_nat_zero_pad: "read_nat (zero_pad w n) = n"
  by (simp add: zero_pad_def read_nat_zeros read_nat_show_nat)

lemma length_zero_pad: "n < 10 ^ w \<Longrightarrow> 0 < w \<Longrightarrow> length (zero_pad w n) = w"
  using length_show_nat [of n w] by (simp add: zero_pad_def)

lemma fields_of_text:
  assumes "length y = 4" "length m = 2" "length d = 2" "length h = 2" "length mi = 2"
    "length sc = 2"
  defines "t \<equiv> y @ ''-'' @ m @ ''-'' @ d @ ''T'' @ h @ '':'' @ mi @ '':'' @ sc"
  shows "take 4 (t @ rest) = y" "take 2 (drop 5 (t @ rest)) = m"
    "take 2 (drop 8 (t @ rest)) = d" "take 2 (drop 11 (t @ rest)) = h"
    "take 2 (drop 14 (t @ rest)) = mi" "take 2 (drop 17 (t @ rest)) = sc"
    "drop 19 (t @ rest) = rest"
  using assms(1-6) by (simp_all add: t_def)

lemma fromisoformat_isoformat:
  assumes "datetime_valid dt"
  shows "fromisoformat (isoformat dt) = Some dt"
proof -
  define y where "y = zero_pad 4 (dt_year dt)"
  define m where "m = zero_pad 2 (dt_month dt)"
  define d where "d = zero_pad 2 (dt_day dt)"
  define h where "h = zero_pad 2 (dt_hour dt)"
  define mi where "mi = zero_pad 2 (dt_minute dt)"
  define sc where "sc = zero_pad 2 (dt_second dt)"
  define rest where
    "rest = (if dt_microsecond dt \<noteq> 0 then ''.'' @ zero_pad 6 (dt_microsecond dt) else [])"
  have day: "dt_day dt \<le> 31"
    using assms days_in_month_le [of "dt_year dt" "dt_month dt"]
    by (simp add: datetime_valid_def)
  have range: "datetime_in_range dt"
    using assms day by (simp add: datetime_valid_def datetime_in_range_def)
  have len: "length y = 4" "length m = 2" "length d = 2" "length h = 2" "length mi = 2"
    "length sc = 2"
    using range
    by (simp_all add: datetime_in_range_def y_def m_def d_def h_def mi_def sc_def
        length_zero_pad)
  have printed: "isoformat dt
      = (y @ ''-'' @ m @ ''-'' @ d @ ''T'' @ h @ '':'' @ mi @ '':'' @ sc) @ rest"
    by (simp add: isoformat_def y_def m_def d_def h_def mi_def sc_def rest_def)
  have micro: "read_nat (drop 20 (isoformat dt)) = dt_microsecond dt"
  proof -
    have "drop 20 (isoformat dt) = drop 1 (drop 19 (isoformat dt))"
      by simp
    also have "\<dots> = drop 1 rest"
      unfolding printed by (simp only: fields_of_text(7) [OF len])
    finally show ?thesis
      by (simp add: rest_def read_nat_zero_pad read_nat_Nil)
  qed
  have fields:
    "read_nat (take 4 (isoformat dt)) = dt_year dt"
    "read_nat (take 2 (drop 5 (isoformat dt))) = dt_month dt"
    "read_nat (take 2 (drop 8 (isoformat dt))) = dt_day dt"
    "read_nat (take 2 (drop 11 (isoformat dt))) = dt_hour dt"
    "read_nat (take 2 (drop 14 (isoformat dt))) = dt_minute dt"
    "read_nat (take 2 (drop 17 (isoformat dt))) = dt_second dt"
    unfolding printed fields_of_text [OF len]
    by (simp_all add: y_def m_def d_def h_def mi_def sc_def read_nat_zero_pad)
  have shape: "iso8601_shape (isoformat dt)"
    using range by (rule isoformat_shape)
  show ?thesis
    unfolding fromisoformat_def Let_def fields micro
    using shape assms by (simp add: datetime_valid_def)
qed

lemmas decoder_defs = fromisoformat_def iso8601_shape_def is_digit_def read_nat_def
  digit_value_def datetime_valid_def days_in_month_def is_leap_def

lemma fromisoformat_new_year:
  "fromisoformat ''2027-01-01T00:00:00'' =
     Some \<lparr> dt_year = 2027, dt_month = 1, dt_day = 1, dt_hour = 0, dt_minute = 0,
            dt_second = 0, dt_microsecond = 0 \<rparr>"
  by (simp add: decoder_defs)

lemma fromisoformat_rejects:
  "fromisoformat ''9999-99-99T99:99:99'' = None"
  "fromisoformat ''2026-02-29T10:00:00'' = None"
  "fromisoformat ''2026-11-03 14:05:07'' = None"
  by (simp_all add: decoder_defs)

subsection \<open>The initial state\<close>

text \<open>
  C3. For every file path, every choice of the four optional arguments and every reading
  of the clock, \<open>create_initial_state\<close> returns a state in which the five input fields
  hold the arguments, the ten list fields are empty, the ten optional output fields are
  \<open>None\<close>, \<open>total_jobs_found\<close> is 0, \<open>current_step\<close> is \<open>initialized\<close>, \<open>is_complete\<close>
  is false and \<open>workflow_version\<close> is \<open>1.0.0\<close>. \<open>timestamp_started\<close> is the text of the
  clock's reading: it has the ISO-8601 shape, and reading it back gives exactly the
  reading of the clock, for every reading the datetime class can hold. The function has no
  failing branch.
\<close>

theorem create_initial_state_fields:
  "(let st = create_initial_state now file_path job_title_arg industry_arg location_arg level_arg
    in uploaded_file_path st = Some file_path \<and>
       target_job_title st = job_title_arg \<and>
       target_industry st = industry_arg \<and>
       target_location st = location_arg \<and>
       experience_level st = level_arg \<and>
       messages st = [] \<and> parsing_errors st = [] \<and> matching_jobs st = [] \<and>
       job_search_errors st = [] \<and> ats_scores st = [] \<and>
       improvement_recommendations st = [] \<and> personalized_tips st = [] \<and>
       priority_improvements st = [] \<and> errors st = [] \<and> warnings st = [] \<and>
       resume_data st = None \<and> file_format st = None \<and> parsing_confidence st = None \<and>
       search_query_used st = None \<and> average_ats_score st = None \<and>
       best_ats_match st = None \<and> resume_enhancements st = None \<and>
       processing_time_seconds st = None \<and> timestamp_completed st = None \<and>
       user_id st = None \<and>
       total_jobs_found st = 0 \<and>
       current_step st = ''initialized'' \<and>
       is_complete st = False \<and>
       workflow_version st = Some ''1.0.0'' \<and>
       timestamp_started st = Some (isoformat now) \<and>
       (datetime_in_range now \<longrightarrow> iso8601_shape (isoformat now)) \<and>
       (datetime_valid now \<longrightarrow>
          Option.bind (timestamp_started st) fromisoformat = Some now))"
  by (simp add: create_initial_state_def isoformat_shape fromisoformat_isoformat)

lemma demo_now_text: "isoformat demo_now = ''2026-11-03T14:05:07.250000''"
  by (simp add: isoformat_def demo_now_def zero_pad_def show_nat.simps digit_char_def)

theorem create_initial_state_fields_witness:
  "datetime_in_range demo_now
   \<and> datetime_valid demo_now
   \<and> timestamp_started (create_initial_state demo_now ''resume.pdf'' None None None None)
       = Some ''2026-11-03T14:05:07.250000''
   \<and> iso8601_shape ''2026-11-03T14:05:07.250000''
   \<and> fromisoformat ''2026-11-03T14:05:07.250000'' = Some demo_now
   \<and> current_step (create_initial_state demo_now ''resume.pdf'' None None None None)
       = ''initialized''
   \<and> timestamp_completed (create_initial_state demo_now ''resume.pdf'' None None None None)
       = None"
proof -
  have range: "datetime_in_range demo_now"
    by (simp add: datetime_in_range_def demo_now_def)
  have valid: "datetime_valid demo_now"
    by (simp add: datetime_valid_def days_in_month_def demo_now_def)
  note fields =
    create_initial_state_fields [of demo_now "''resume.pdf''" None None None None,
      unfolded Let_def]
  from fields have started:
    "timestamp_started (create_initial_state demo_now ''resume.pdf'' None None None None)
       = Some (isoformat demo_now)"
    by (elim conjE)
  from fields have "datetime_in_range demo_now \<longrightarrow> iso8601_shape (isoformat demo_now)"
    by (elim conjE)
  with range have shape: "iso8601_shape ''2026-11-03T14:05:07.250000''"
    by (simp add: demo_now_text)
  from fields have "datetime_valid demo_now \<longrightarrow>
      Option.bind
        (timestamp_started (create_initial_state demo_now ''resume.pdf'' None None None None))
        fromisoformat = Some demo_now"
    by (elim conjE)
  with valid have decoded: "fromisoformat ''2026-11-03T14:05:07.250000'' = Some demo_now"
    by (simp add: started demo_now_text)
  from fields have step:
    "current_step (create_initial_state demo_now ''resume.pdf'' None None None None)
       = ''initialized''"
    by (elim conjE)
  from fields have completed:
    "timestamp_completed (create_initial_state demo_now ''resume.pdf'' None None None None)
       = None"
    by (elim conjE)
  from range valid started shape decoded step completed show ?thesis
    by (simp add: demo_now_text)
qed

text \<open>
  C10. Two calls with the same arguments, at whatever times, return states that agree in
  every field but \<open>timestamp_started\<close>: the first state is the second one with
  \<open>timestamp_started\<close> replaced by the text of the first call's clock reading.
\<close>

theorem create_initial_state_clock_only:
  "create_initial_state now1 file_path job_title_arg industry_arg location_arg level_arg
   = (create_initial_state now2 file_path job_title_arg industry_arg location_arg level_arg)
       \<lparr> timestamp_started := Some (isoformat now1) \<rparr>"
  by (simp add: create_initial_state_def)

section \<open>Properties of file validation\<close>

subsection \<open>Rounding and true division\<close>

lemma round_half_even_of_int: "round_half_even (of_int k) = k"
  by (simp add: round_half_even_def)


lemma floorlog_2_MiB: "floorlog 2 1048576 = 21"
proof -
  have "floorlog 2 (1 * 2 ^ 20) = floorlog 2 1 + 20"
    by (rule floorlog_power) simp_all
  moreover have "floorlog 2 1 = 1"
    by (simp add: compute_floorlog)
  ultimately show ?thesis by simp
qed

lemma pow2_split: "la \<le> p \<Longrightarrow> (2::rat) ^ (n + p) = 2 ^ n * 2 ^ (p - la) * 2 ^ la"
  by (simp flip: power_add)

lemma quotient_in_ulps:
  assumes "la \<le> p"
  shows "(of_nat a / 2 ^ n) / (2 ^ la / 2 ^ (n + p)) = (of_int (int (a * 2 ^ (p - la))) :: rat)"
  by (simp add: pow2_split [OF assms])

lemma ulps_to_quotient:
  assumes "la \<le> p"
  shows "(of_int (int (a * 2 ^ (p - la))) :: rat) * (2 ^ la / 2 ^ (n + p)) = of_nat a / 2 ^ n"
  by (simp add: pow2_split [OF assms])

lemma py_int_truediv_normal:
  assumes "b \<noteq> 0" and "a \<noteq> 0"
    and "q = of_nat a / of_nat b"
    and "ex = int (floorlog 2 a) - int (floorlog 2 b)"
    and "2 powi ex \<le> q"
    and "ulp = 2 powi (max ex (- 1022) - 52)"
    and "of_int (round_half_even (q / ulp)) * ulp = r"
    and "r < 2 ^ 1024"
  shows "py_int_truediv a b = Inr r"
proof -
  have "\<not> 2 ^ 1024 \<le> r"
    using assms(8) by (simp only: not_le)
  with assms(1-7) show ?thesis
    unfolding py_int_truediv_def Let_def by (simp only: if_True if_False)
qed

lemma py_int_truediv_MiB_exact:
  assumes "a < 2 ^ 53"
  shows "py_int_truediv a (1024 * 1024) = Inr (of_nat a / (1024 * 1024))"
proof (cases "a = 0")
  case True
  then show ?thesis by (simp add: py_int_truediv_def)
next
  case False
  define la where "la = floorlog 2 a"
  define q :: rat where "q = of_nat a / of_nat (1024 * 1024)"
  define e0 where "e0 = int la - int (floorlog 2 (1024 * 1024))"
  define ulp :: rat where "ulp = 2 powi (max e0 (- 1022) - 52)"
  have lower: "2 ^ (la - 1) \<le> a" and upper: "a < 2 ^ la"
    using floorlog_bounds [of a 2] False by (simp_all add: la_def)
  have la_pos: "0 < la"
    using False by (simp add: la_def floorlog_def)
  have la_le: "la \<le> 53"
    using assms by (simp add: la_def floorlog_le_iff)
  have e0: "e0 = int la - 21"
    by (simp add: e0_def floorlog_2_MiB)
  have pow_la: "(2::rat) ^ la = 2 * 2 ^ (la - 1)"
    using la_pos by (cases la) simp_all
  have "(2::rat) ^ (la - 1) \<le> of_nat a"
    using lower by (metis of_nat_le_iff of_nat_numeral of_nat_power)
  then have two_a: "(2::rat) ^ la \<le> 2 * of_nat a"
    by (simp add: pow_la)
  have powi_e0: "(2::rat) powi e0 = 2 ^ la / 2 ^ 21"
    by (simp add: e0 power_int_diff)
  have e_eq: "2 powi e0 \<le> q"
    using two_a by (simp add: powi_e0 q_def field_simps)
  have ulp_eq: "ulp = 2 ^ la / 2 ^ 73"
  proof -
    have "max e0 (- 1022) - 52 = int la - 73"
      using la_pos by (simp add: e0)
    then have "ulp = 2 powi (int la - 73)"
      by (simp only: ulp_def)
    also have "\<dots> = 2 ^ la / 2 ^ 73"
      by (simp add: power_int_diff)
    finally show ?thesis .
  qed
  have "q / ulp = of_int (int (a * 2 ^ (53 - la)))"
    using quotient_in_ulps [OF la_le, of a 20] by (simp add: q_def ulp_eq)
  then have "round_half_even (q / ulp) = int (a * 2 ^ (53 - la))"
    by (simp only: round_half_even_of_int)
  then have r_eq: "of_int (round_half_even (q / ulp)) * ulp = q"
    using ulps_to_quotient [OF la_le, of a 20] by (simp add: q_def ulp_eq)
  have "q \<le> of_nat a"
    by (simp add: q_def field_simps)
  also have "\<dots> < 2 ^ 53"
    using assms by (metis of_nat_less_iff of_nat_numeral of_nat_power)
  also have "\<dots> \<le> (2::rat) ^ 1024"
    by (rule power_increasing) simp_all
  finally have no_overflow: "q < 2 ^ 1024" .
  have "py_int_truediv a (1024 * 1024) = Inr q"
    using _ False q_def e0_def [unfolded la_def] e_eq ulp_def r_eq no_overflow
    by (rule py_int_truediv_normal) simp
  then show ?thesis
    by (simp add: q_def)
qed



subsection \<open>The validator\<close>






lemma demo_ext: "snd (splitext (lower ''/home/u/CV.PDF'')) = ''.pdf''"
  "snd (splitext (lower ''notes.md'')) = ''.md''"
  by code_simp+


subsection \<open>The validator on the small file system\<close>

text \<open>
  The three rejections with their messages: a file of 6 MiB against a bound of 5, a path
  that does not exist, and an extension that is not allowed. One digit after the point is
  kept with ties to even, as for 5.25 and 5.75.
\<close>

lemma size_video: "py_int_truediv 6291456 (1024 * 1024) = Inr 6"
  using py_int_truediv_MiB_exact [of 6291456] by simp

lemma fmt6: "format_1f 6 = ''6.0''"
  by (simp add: format_1f_def round_half_even_def show_nat.simps digit_char_def)

lemma fmt_tie: "format_1f (21 / 4) = ''5.2''" "format_1f (23 / 4) = ''5.8''"
  by code_simp+

lemma validate_file_too_large:
  "validate_file demo_fs ''video.txt'' 5 = Inr (False, Some ''File too large: 6.0MB (max: 5MB)'')"
  using size_video
  by (simp add: validate_file_def demo_fs_def os_path_exists_def os_path_getsize_def
      fmt6 show_int_def show_nat.simps digit_char_def)

lemma validate_file_missing:
  "validate_file demo_fs ''cv.pdf'' 5 = Inr (False, Some ''File does not exist'')"
  by (simp add: validate_file_def demo_fs_def os_path_exists_def)

lemma repr_allowed: "repr_list [''.pdf'', ''.docx'', ''.txt''] = ''['.pdf', '.docx', '.txt']''"
  by (simp add: repr_list_def repr_str_def)

lemma validate_file_unsupported:
  "validate_file demo_fs ''notes.md'' 5
   = Inr (False, Some ''Unsupported file type: .md. Allowed: ['.pdf', '.docx', '.txt']'')"
  using py_int_truediv_MiB_exact [of 10]
  by (simp add: validate_file_def demo_fs_def os_path_exists_def os_path_getsize_def
      demo_ext py_in_def repr_allowed)

text \<open>\<open>lower\<close> on Latin-1: the accented capital 201 becomes 233, the sign 215 stays.\<close>

lemma lower_latin1:
  "lower [char_of (201 :: nat), CHR ''A'', char_of (215 :: nat), CHR ''z'']
   = [char_of (233 :: nat), CHR ''a'', char_of (215 :: nat), CHR ''z'']"
  by code_simp

end
